theory Spec2Isabelle
  imports Complex_Main "HOL-Library.Sublist"
begin

section \<open>Python values and exceptions\<close>

text \<open>
  Strings are \<open>char list\<close>; the scripts work on URLs, file names and ASCII tokens, and a
  character is one element of the list. An exception that leaves a function is the \<open>Inl\<close>
  branch of its result.
\<close>

datatype exc =
    IndexError
  | KeyError
  | ZeroDivisionError
  | JSONDecodeError
  | UnicodeDecodeError
  | OSError
  | AttributeError
  | TypeError
  | ValueError
  | StopIteration
  | ReadTimeout
  | ConnectTimeout
  | ConnectionError
  | HTTPError nat
  | RequestsJSONDecodeError
  | OtherRequestException

text \<open>\<open>xs[0]\<close>: the first element, or IndexError on the empty list.\<close>

definition index0 :: "'a list \<Rightarrow> exc + 'a" where
  "index0 xs = (case xs of [] \<Rightarrow> Inl IndexError | x # _ \<Rightarrow> Inr x)"

section \<open>URL resolver: \<open>find_wikipedia_url\<close>\<close>

text \<open>
  \<open>validate_wiki_articles.py\<close> and \<open>add_urls_to_results.py\<close> hold the same function (the
  two differ only in how the warning is printed). \<open>url_mapping\<close> is a dict from book id to
  a list of \<open>(url, lang)\<close> tuples.
\<close>

type_synonym url_mapping = "string \<rightharpoonup> (string \<times> string) list"

text \<open>The \<open>for url, lang in urls: if lang == language: return url\<close> loop.\<close>

fun first_lang_match :: "(string \<times> string) list \<Rightarrow> string \<Rightarrow> string option" where
  "first_lang_match [] language = None"
| "first_lang_match ((url, lang) # urls) language =
     (if lang = language then Some url else first_lang_match urls language)"

definition find_wikipedia_url :: "url_mapping \<Rightarrow> string \<Rightarrow> string \<Rightarrow> exc + string" where
  "find_wikipedia_url url_mapping book_id language =
     (case url_mapping book_id of
        None \<Rightarrow> Inr ''URL_NOT_FOUND''
      | Some urls \<Rightarrow>
          if length urls = 1 then map_sum id fst (index0 urls)
          else (case first_lang_match urls language of
                  Some url \<Rightarrow> Inr url
                | None \<Rightarrow> map_sum id fst (index0 urls)))"

section \<open>Summary reports\<close>

text \<open>
  Python's \<open>/\<close> on two ints is true division: it raises ZeroDivisionError on a zero
  divisor and otherwise yields the quotient, kept here as the exact rational (the
  rounding to a float and the \<open>:.1f\<close> formatting are not part of the model).
\<close>

definition truediv :: "int \<Rightarrow> int \<Rightarrow> exc + rat" where
  "truediv a b = (if b = 0 then Inl ZeroDivisionError else Inr (of_int a / of_int b))"

text \<open>Sequencing of computations that may raise.\<close>

definition bind_exc :: "exc + 'a \<Rightarrow> ('a \<Rightarrow> exc + 'b) \<Rightarrow> exc + 'b" where
  "bind_exc m f = (case m of Inl e \<Rightarrow> Inl e | Inr x \<Rightarrow> f x)"

subsection \<open>Validation pipeline\<close>

text \<open>
  \<open>stats\<close> of \<open>validate_wiki_articles.py\<close>. The two confidence tables are
  \<open>defaultdict(int)\<close>: a label never counted reads as 0.
\<close>

record vstats =
  total_processed :: int
  matches :: int
  mismatches :: int
  errors :: int
  match_confidence :: "string \<Rightarrow> int"
  mismatch_confidence :: "string \<Rightarrow> int"

text \<open>The figures of the report, in the order the f-string evaluates them.\<close>

record vsummary =
  pct_matches :: rat
  pct_mismatches :: rat
  pct_errors :: rat
  pct_match_high :: rat
  pct_match_medium :: rat
  pct_match_low :: rat
  pct_mismatch_high :: rat
  pct_mismatch_medium :: rat
  pct_mismatch_low :: rat

definition generate_summary :: "vstats \<Rightarrow> exc + vsummary" where
  "generate_summary stats =
     (let total = total_processed stats;
          matches = matches stats;
          mismatches = mismatches stats;
          errors = errors stats
      in bind_exc (truediv (100 * matches) total) (\<lambda>p1.
         bind_exc (truediv (100 * mismatches) total) (\<lambda>p2.
         bind_exc (truediv (100 * errors) total) (\<lambda>p3.
         bind_exc (truediv (100 * match_confidence stats ''HIGH'') matches) (\<lambda>p4.
         bind_exc (truediv (100 * match_confidence stats ''MEDIUM'') matches) (\<lambda>p5.
         bind_exc (truediv (100 * match_confidence stats ''LOW'') matches) (\<lambda>p6.
         bind_exc (truediv (100 * mismatch_confidence stats ''HIGH'') mismatches) (\<lambda>p7.
         bind_exc (truediv (100 * mismatch_confidence stats ''MEDIUM'') mismatches) (\<lambda>p8.
         bind_exc (truediv (100 * mismatch_confidence stats ''LOW'') mismatches) (\<lambda>p9.
         Inr \<lparr> pct_matches = p1, pct_mismatches = p2, pct_errors = p3,
               pct_match_high = p4, pct_match_medium = p5, pct_match_low = p6,
               pct_mismatch_high = p7, pct_mismatch_medium = p8,
               pct_mismatch_low = p9 \<rparr>))))))))))"

subsection \<open>Primary pipeline\<close>

text \<open>
  The counters of \<open>get_wiki_articles.py\<close> that the success rate reads:
  \<open>stats['successful'] / max(stats['total_urls'] - stats['skipped'], 1) * 100\<close>.
\<close>

definition success_rate :: "int \<Rightarrow> int \<Rightarrow> int \<Rightarrow> exc + rat" where
  "success_rate successful total_urls skipped =
     map_sum id (\<lambda>q. q * 100) (truediv successful (max (total_urls - skipped) 1))"

section \<open>Title/language extractor\<close>

text \<open>
  \<open>extract_language_code\<close> is \<open>re.search(r'https?://([a-z]{2,3})\.wikipedia\.org', url)\<close>
  in \<open>get_wiki_articles.py\<close> and the same with the class \<open>[a-z\-]{2,7}\<close> in
  \<open>retry_failed.py\<close>. The matcher below follows the backtracking engine: at one start
  position it reads \<open>http\<close>, then tries the optional \<open>s\<close> taken and not taken, then
  \<open>://\<close>, then the bounded repetition from the longest count down to the shortest, each
  time requiring the literal \<open>.wikipedia.org\<close> right after; \<open>re.search\<close> tries the start
  positions from left to right.
\<close>

fun strip_prefix :: "string \<Rightarrow> string \<Rightarrow> string option" where
  "strip_prefix [] s = Some s"
| "strip_prefix (p # ps) [] = None"
| "strip_prefix (p # ps) (c # cs) = (if p = c then strip_prefix ps cs else None)"

definition lower_letter :: "char \<Rightarrow> bool" where
  "lower_letter c = (c \<in> set ''abcdefghijklmnopqrstuvwxyz'')"

definition lower_or_hyphen :: "char \<Rightarrow> bool" where
  "lower_or_hyphen c = (lower_letter c \<or> c = CHR ''-'')"

definition wikipedia_org :: string where
  "wikipedia_org = ''.wikipedia.org''"

definition group_exact :: "(char \<Rightarrow> bool) \<Rightarrow> nat \<Rightarrow> string \<Rightarrow> string option" where
  "group_exact cls n s =
     (if n \<le> length s \<and> list_all cls (take n s) then
        (case strip_prefix wikipedia_org (drop n s) of
           Some _ \<Rightarrow> Some (take n s)
         | None \<Rightarrow> None)
      else None)"

primrec group_upto :: "(char \<Rightarrow> bool) \<Rightarrow> nat \<Rightarrow> nat \<Rightarrow> string \<Rightarrow> string option" where
  "group_upto cls lo 0 s = group_exact cls lo s"
| "group_upto cls lo (Suc d) s =
     (case group_exact cls (lo + Suc d) s of
        Some g \<Rightarrow> Some g
      | None \<Rightarrow> group_upto cls lo d s)"

definition lang_here :: "(char \<Rightarrow> bool) \<Rightarrow> nat \<Rightarrow> nat \<Rightarrow> string \<Rightarrow> string option" where
  "lang_here cls lo hi s =
     (case strip_prefix ''http'' s of
        None \<Rightarrow> None
      | Some r \<Rightarrow>
          (case (case strip_prefix ''s://'' r of
                   Some t \<Rightarrow> group_upto cls lo (hi - lo) t
                 | None \<Rightarrow> None) of
             Some g \<Rightarrow> Some g
           | None \<Rightarrow>
               (case strip_prefix ''://'' r of
                  Some t \<Rightarrow> group_upto cls lo (hi - lo) t
                | None \<Rightarrow> None)))"

fun lang_search :: "(char \<Rightarrow> bool) \<Rightarrow> nat \<Rightarrow> nat \<Rightarrow> string \<Rightarrow> string option" where
  "lang_search cls lo hi [] = lang_here cls lo hi []"
| "lang_search cls lo hi (c # cs) =
     (case lang_here cls lo hi (c # cs) of
        Some g \<Rightarrow> Some g
      | None \<Rightarrow> lang_search cls lo hi cs)"

definition extract_language_code :: "string \<Rightarrow> string" where
  "extract_language_code url =
     (case lang_search lower_letter 2 3 url of Some g \<Rightarrow> g | None \<Rightarrow> ''unknown'')"

definition extract_language_code_retry :: "string \<Rightarrow> string" where
  "extract_language_code_retry url =
     (case lang_search lower_or_hyphen 2 7 url of Some g \<Rightarrow> g | None \<Rightarrow> ''unknown'')"

text \<open>The pattern of a tag: between \<open>lo\<close> and \<open>hi\<close> characters of the class.\<close>

definition tag :: "(char \<Rightarrow> bool) \<Rightarrow> nat \<Rightarrow> nat \<Rightarrow> string \<Rightarrow> bool" where
  "tag cls lo hi g = (lo \<le> length g \<and> length g \<le> hi \<and> list_all cls g)"

text \<open>
  The tag \<open>g\<close> occurs in \<open>url\<close> between \<open>http://\<close> or \<open>https://\<close> and
  \<open>.wikipedia.org\<close>, at any place of the text.
\<close>

definition occurs_tagged :: "(char \<Rightarrow> bool) \<Rightarrow> nat \<Rightarrow> nat \<Rightarrow> string \<Rightarrow> string \<Rightarrow> bool" where
  "occurs_tagged cls lo hi g url =
     (tag cls lo hi g \<and>
      (\<exists>pre sch rest. (sch = ''http'' \<or> sch = ''https'') \<and>
          url = pre @ sch @ ''://'' @ g @ wikipedia_org @ rest))"








section \<open>Checkpoint store: loading\<close>

text \<open>
  What a load can find at the path of the checkpoint file: no file; a file that cannot be
  opened (\<open>open\<close> raises OSError); bytes that are not UTF-8 (reading raises
  UnicodeDecodeError); an empty or all-whitespace text; a text that is not JSON
  (\<open>json.load\<close> raises JSONDecodeError, as it does on the blank text); or the JSON object a
  pipeline wrote, held as the dict it decodes to (items in insertion order).
\<close>

datatype 'a checkpoint_file =
    Absent
  | Unopenable
  | Undecodable
  | Blank
  | Malformed
  | Holds "(string \<times> 'a) list"

text \<open>\<open>with open(...) as f: f.read()\<close>: the text, kept with what it parses to.\<close>

datatype 'a file_text = BlankText | BadJson | JsonObject "(string \<times> 'a) list"

definition read_text :: "'a checkpoint_file \<Rightarrow> exc + 'a file_text" where
  "read_text f =
     (case f of
        Absent \<Rightarrow> Inl OSError
      | Unopenable \<Rightarrow> Inl OSError
      | Undecodable \<Rightarrow> Inl UnicodeDecodeError
      | Blank \<Rightarrow> Inr BlankText
      | Malformed \<Rightarrow> Inr BadJson
      | Holds m \<Rightarrow> Inr (JsonObject m))"

definition json_loads :: "'a file_text \<Rightarrow> exc + (string \<times> 'a) list" where
  "json_loads t =
     (case t of
        BlankText \<Rightarrow> Inl JSONDecodeError
      | BadJson \<Rightarrow> Inl JSONDecodeError
      | JsonObject m \<Rightarrow> Inr m)"

definition path_exists :: "'a checkpoint_file \<Rightarrow> bool" where
  "path_exists f = (f \<noteq> Absent)"

text \<open>
  \<open>get_wiki_articles.py\<close>: \<open>try: return json.load(f)\<close> under \<open>except Exception\<close>, which
  returns \<open>{}\<close>.
\<close>

definition load_progress :: "'a checkpoint_file \<Rightarrow> exc + (string \<times> 'a) list" where
  "load_progress f =
     (if path_exists f then
        (case bind_exc (read_text f) json_loads of
           Inr m \<Rightarrow> Inr m
         | Inl e \<Rightarrow> Inr [])
      else Inr [])"

text \<open>\<open>retry_failed.py\<close>: the same two lines with no \<open>try\<close> around them.\<close>

definition load_progress_retry :: "'a checkpoint_file \<Rightarrow> exc + (string \<times> 'a) list" where
  "load_progress_retry f =
     (if path_exists f then bind_exc (read_text f) json_loads else Inr [])"

text \<open>
  \<open>validate_wiki_articles.py\<close>: the text is stripped and parsed only when something is
  left; \<open>except (json.JSONDecodeError, IOError): pass\<close> lets every other exception through.
\<close>

definition load_validation_progress :: "'a checkpoint_file \<Rightarrow> exc + (string \<times> 'a) list" where
  "load_validation_progress f =
     (if path_exists f then
        (case bind_exc (read_text f)
                (\<lambda>content. if content \<noteq> BlankText then json_loads content else Inr []) of
           Inr m \<Rightarrow> Inr m
         | Inl e \<Rightarrow> if e = JSONDecodeError \<or> e = OSError then Inr [] else Inl e)
      else Inr [])"

section \<open>JSON values as Python sees them\<close>

text \<open>
  What \<open>response.json()\<close> returns. An object is a dict, held as its items in insertion
  order (keys distinct); a number is held as an integer.
\<close>

datatype json =
    JNull
  | JBool bool
  | JNum int
  | JStr string
  | JArr "json list"
  | JObj "(string \<times> json) list"

text \<open>Truth value of a value under \<open>not\<close> and \<open>if\<close>.\<close>

fun truthy :: "json \<Rightarrow> bool" where
  "truthy JNull = False"
| "truthy (JBool b) = b"
| "truthy (JNum n) = (n \<noteq> 0)"
| "truthy (JStr s) = (s \<noteq> [])"
| "truthy (JArr xs) = (xs \<noteq> [])"
| "truthy (JObj kvs) = (kvs \<noteq> [])"

text \<open>\<open>d.get(key, default)\<close>: only a dict has the method.\<close>

fun dict_get :: "json \<Rightarrow> string \<Rightarrow> json \<Rightarrow> exc + json" where
  "dict_get (JObj kvs) key dflt = Inr (case map_of kvs key of Some v \<Rightarrow> v | None \<Rightarrow> dflt)"
| "dict_get _ key dflt = Inl AttributeError"

text \<open>\<open>next(iter(d.values()))\<close>.\<close>

fun first_value :: "json \<Rightarrow> exc + json" where
  "first_value (JObj []) = Inl StopIteration"
| "first_value (JObj ((k, v) # kvs)) = Inr v"
| "first_value _ = Inl AttributeError"

text \<open>\<open>sub in s\<close> on two strings.\<close>

fun contains_str :: "string \<Rightarrow> string \<Rightarrow> bool" where
  "contains_str sub [] = (sub = [])"
| "contains_str sub (c # cs) =
     (case strip_prefix sub (c # cs) of
        Some _ \<Rightarrow> True
      | None \<Rightarrow> contains_str sub cs)"

text \<open>
  \<open>key in x\<close> for a string \<open>key\<close>: a key test on a dict, a substring test on a string,
  membership in a list, TypeError on the values that are no containers.
\<close>

fun py_in :: "string \<Rightarrow> json \<Rightarrow> exc + bool" where
  "py_in key (JObj kvs) = Inr (key \<in> set (map fst kvs))"
| "py_in key (JStr s) = Inr (contains_str key s)"
| "py_in key (JArr xs) = Inr (JStr key \<in> set xs)"
| "py_in key _ = Inl TypeError"

text \<open>\<open>len(x)\<close>.\<close>

fun py_len :: "json \<Rightarrow> exc + nat" where
  "py_len (JStr s) = Inr (length s)"
| "py_len (JArr xs) = Inr (length xs)"
| "py_len (JObj kvs) = Inr (length kvs)"
| "py_len _ = Inl TypeError"

text \<open>\<open>x[0]\<close>: a dict decoded from JSON has string keys only, so the key 0 is missing.\<close>

fun py_index0 :: "json \<Rightarrow> exc + json" where
  "py_index0 (JArr xs) = index0 xs"
| "py_index0 (JStr s) = map_sum id (\<lambda>c. JStr [c]) (index0 s)"
| "py_index0 (JObj kvs) = Inl KeyError"
| "py_index0 _ = Inl TypeError"

text \<open>\<open>x == 0\<close>: \<open>False == 0\<close> holds in Python.\<close>

fun eq_zero :: "json \<Rightarrow> bool" where
  "eq_zero (JNum n) = (n = 0)"
| "eq_zero (JBool b) = (\<not> b)"
| "eq_zero _ = False"

text \<open>\<open>s.startswith(p)\<close>: only a string has the method.\<close>

fun py_startswith :: "json \<Rightarrow> string \<Rightarrow> exc + bool" where
  "py_startswith (JStr s) p = Inr (strip_prefix p s \<noteq> None)"
| "py_startswith _ p = Inl AttributeError"

text \<open>\<open>d[key] = v\<close> on a dict: an existing key keeps its place, a new key goes last.\<close>

fun dict_set :: "(string \<times> 'a) list \<Rightarrow> string \<Rightarrow> 'a \<Rightarrow> (string \<times> 'a) list" where
  "dict_set [] k v = [(k, v)]"
| "dict_set ((k', v') # kvs) k v =
     (if k' = k then (k, v) # kvs else (k', v') # dict_set kvs k v)"

section \<open>Remote fetch adapter\<close>

text \<open>
  One call of \<open>requests.get\<close> either raises or returns a response with a status code and a
  body; \<open>response.json()\<close> gives the decoded body or raises the exception the body carries
  (\<open>RequestsJSONDecodeError\<close> in current versions of the library, \<open>JSONDecodeError\<close> in old
  ones).
\<close>

datatype body = BodyJson json | BodyUnparsable exc

datatype http_outcome = Raises exc | Response nat body

text \<open>The exception classes the handlers name, as sets of the exceptions of the model.\<close>

definition is_Timeout :: "exc \<Rightarrow> bool" where
  "is_Timeout e = (e = ReadTimeout \<or> e = ConnectTimeout)"

definition is_ConnectionError :: "exc \<Rightarrow> bool" where
  "is_ConnectionError e = (e = ConnectionError \<or> e = ConnectTimeout)"

definition is_RequestException :: "exc \<Rightarrow> bool" where
  "is_RequestException e =
     (case e of
        ReadTimeout \<Rightarrow> True | ConnectTimeout \<Rightarrow> True | ConnectionError \<Rightarrow> True
      | HTTPError _ \<Rightarrow> True | RequestsJSONDecodeError \<Rightarrow> True
      | OtherRequestException \<Rightarrow> True | _ \<Rightarrow> False)"

definition is_JSONDecodeError :: "exc \<Rightarrow> bool" where
  "is_JSONDecodeError e = (e = JSONDecodeError \<or> e = RequestsJSONDecodeError)"

text \<open>
  An error message: a literal of the source, or a literal followed by \<open>str(e)\<close> of an
  exception or by the text of a JSON value, as the f-strings build it.
\<close>

datatype message = Msg string | MsgExc string exc | MsgVal string json

definition MAX_RETRIES :: nat where
  "MAX_RETRIES = 3"

definition RETRY_DELAYS :: "nat list" where
  "RETRY_DELAYS = [5, 15, 45]"

definition raise_for_status :: "nat \<Rightarrow> exc + unit" where
  "raise_for_status status =
     (if 400 \<le> status \<and> status < 600 then Inl (HTTPError status) else Inr ())"

definition response_json :: "body \<Rightarrow> exc + json" where
  "response_json b = (case b of BodyJson j \<Rightarrow> Inr j | BodyUnparsable e \<Rightarrow> Inl e)"

text \<open>
  What a fetch did: its result (\<open>Inl\<close> for \<open>(False, message)\<close>, \<open>Inr\<close> for
  \<open>(True, content)\<close>), the \<open>time.sleep\<close> delays in order, and the number of requests sent.
\<close>

record 'r fetched =
  outcome :: 'r
  slept :: "nat list"
  requests :: nat

definition finished :: "'r \<Rightarrow> 'r fetched" where
  "finished r = \<lparr> outcome = r, slept = [], requests = 1 \<rparr>"

definition after_sleep :: "nat \<Rightarrow> 'r fetched \<Rightarrow> 'r fetched" where
  "after_sleep d r = r \<lparr> slept := d # slept r, requests := Suc (requests r) \<rparr>"

subsection \<open>Primary pipeline: \<open>fetch_wikipedia_content\<close>\<close>

text \<open>The \<open>except\<close> clauses, in the order of the source.\<close>

definition fetch_handler :: "exc \<Rightarrow> message" where
  "fetch_handler e =
     (if is_Timeout e then Msg ''Request timeout after 30s''
      else if is_ConnectionError e then Msg ''Connection error''
      else if is_RequestException e then MsgExc ''Request error: '' e
      else if is_JSONDecodeError e then Msg ''Invalid JSON response''
      else MsgExc ''Unexpected error: '' e)"

text \<open>\<open>data.get('query', {}).get('pages', {})\<close>.\<close>

definition query_pages :: "json \<Rightarrow> exc + json" where
  "query_pages data =
     bind_exc (dict_get data ''query'' (JObj [])) (\<lambda>query. dict_get query ''pages'' (JObj []))"

text \<open>The \<open>try\<close> body from \<open>response.raise_for_status()\<close> on.\<close>

definition read_extract :: "nat \<Rightarrow> body \<Rightarrow> exc + (message + json)" where
  "read_extract status b =
     bind_exc (raise_for_status status) (\<lambda>_.
     bind_exc (response_json b) (\<lambda>data.
     bind_exc (query_pages data) (\<lambda>pages.
       if \<not> truthy pages then Inr (Inl (Msg ''Empty API response''))
       else
         bind_exc (first_value pages) (\<lambda>page.
         bind_exc (py_in ''missing'' page) (\<lambda>missing.
           if missing then Inr (Inl (Msg ''Page does not exist (404)''))
           else
             bind_exc (dict_get page ''extract'' (JStr [])) (\<lambda>content.
               if \<not> truthy content then Inr (Inl (Msg ''Empty article content''))
               else Inr (Inr content)))))))"

text \<open>
  \<open>net k\<close> is what the request of attempt \<open>k\<close> meets. The function calls itself with
  \<open>retry_count + 1\<close> after the sleep, as the source does.
\<close>

function fetch_wikipedia_content :: "(nat \<Rightarrow> http_outcome) \<Rightarrow> nat \<Rightarrow> (message + json) fetched" where
  "fetch_wikipedia_content net retry_count =
     (case net retry_count of
        Raises e \<Rightarrow> finished (Inl (fetch_handler e))
      | Response status b \<Rightarrow>
          if status = 429 then
            (if retry_count < MAX_RETRIES then
               after_sleep (RETRY_DELAYS ! retry_count)
                 (fetch_wikipedia_content net (retry_count + 1))
             else finished (Inl (Msg ''Rate limited - max retries exceeded'')))
          else if status = 503 then
            (if retry_count < MAX_RETRIES then
               after_sleep (RETRY_DELAYS ! retry_count)
                 (fetch_wikipedia_content net (retry_count + 1))
             else finished (Inl (Msg ''Service unavailable - max retries exceeded'')))
          else
            finished (case read_extract status b of
                        Inl e \<Rightarrow> Inl (fetch_handler e)
                      | Inr r \<Rightarrow> r))"
  by pat_completeness auto
termination
  by (relation "measure (\<lambda>(net, retry_count). MAX_RETRIES - retry_count)") auto

declare fetch_wikipedia_content.simps [simp del]

subsection \<open>Retry pipeline: \<open>diagnose_and_fetch\<close>\<close>

text \<open>
  A value of the diagnostics dict: a JSON-like value, or \<open>str(e)\<close> of the exception caught.
\<close>

datatype dval = DVal json | DExcText exc

type_synonym diagnostics = "(string \<times> dval) list"

text \<open>The \<open>except\<close> clauses of \<open>diagnose_and_fetch\<close>, in the order of the source.\<close>

definition diagnose_handler :: "exc \<Rightarrow> (message + json) \<times> diagnostics" where
  "diagnose_handler e =
     (if is_ConnectionError e then
        (Inl (Msg ''Connection error''), [(''connection_error'', DVal (JBool True))])
      else if is_Timeout e then
        (Inl (Msg ''Request timeout after 30s''), [(''timeout'', DVal (JBool True))])
      else (Inl (MsgExc ''Unexpected error: '' e), [(''exception'', DExcText e)]))"

text \<open>
  The branch \<open>if not content\<close> once the page is known not to be a disambiguation page: the
  second request (for the raw revision) and what is read from its answer. No status code is
  looked at here.
\<close>

definition read_revisions ::
  "http_outcome \<Rightarrow> diagnostics \<Rightarrow> exc + ((message + json) \<times> diagnostics)" where
  "read_revisions rev_response diagnostics =
     (case rev_response of
        Raises e \<Rightarrow> Inl e
      | Response status b \<Rightarrow>
          bind_exc (response_json b) (\<lambda>rev_data.
          bind_exc (query_pages rev_data) (\<lambda>rev_pages.
          bind_exc (first_value rev_pages) (\<lambda>rev_page.
          bind_exc (dict_get rev_page ''revisions'' (JArr [])) (\<lambda>revisions.
            if truthy revisions then
              bind_exc (py_index0 revisions) (\<lambda>rev0.
              bind_exc (dict_get rev0 ''size'' (JNum 0)) (\<lambda>size.
                let diagnostics = dict_set diagnostics ''raw_size'' (DVal size) in
                if eq_zero size then
                  Inr (Inl (Msg ''Page exists but has zero content''), diagnostics)
                else
                  bind_exc (py_index0 revisions) (\<lambda>rev0'.
                  bind_exc (dict_get rev0' ''slots'' (JObj [])) (\<lambda>slots.
                  bind_exc (dict_get slots ''main'' (JObj [])) (\<lambda>main.
                  bind_exc (dict_get main ''*'' (JStr [])) (\<lambda>content_text.
                  bind_exc (py_startswith content_text ''#REDIRECT'') (\<lambda>redirect.
                    if redirect then
                      Inr (Inl (Msg ''Page is a redirect''),
                           dict_set diagnostics ''is_redirect'' (DVal (JBool True)))
                    else
                      Inr (Inl (Msg
                        ''Page has content but extract failed (likely special page type)''),
                           diagnostics))))))))
            else Inr (Inl (Msg ''No revisions found''), diagnostics))))))"

text \<open>
  The \<open>try\<close> body from \<open>response.raise_for_status()\<close> on. The flag of the result says
  whether the second request was sent.
\<close>

definition read_diagnosed ::
  "string \<Rightarrow> string \<Rightarrow> nat \<Rightarrow> body \<Rightarrow> http_outcome \<Rightarrow>
     (exc + ((message + json) \<times> diagnostics)) \<times> bool" where
  "read_diagnosed lang page_title status b rev_response =
     (case bind_exc (raise_for_status status) (\<lambda>_.
           bind_exc (response_json b) query_pages) of
        Inl e \<Rightarrow> (Inl e, False)
      | Inr pages \<Rightarrow>
          if \<not> truthy pages then
            (Inr (Inl (Msg ''Empty API response''),
                  [(''api_returned_no_pages'', DVal (JBool True))]), False)
          else
            (case bind_exc (first_value pages) (\<lambda>page.
                  bind_exc (dict_get page ''pageid'' (JStr ''N/A'')) (\<lambda>page_id.
                  bind_exc (py_in ''missing'' page) (\<lambda>missing.
                    let diagnostics = [(''page_id'', DVal page_id),
                                       (''lang'', DVal (JStr lang)),
                                       (''page_title'', DVal (JStr page_title))] in
                    if missing then
                      Inr (Inl (Inl (Msg ''Page does not exist (404)''),
                                dict_set diagnostics ''missing'' (DVal (JBool True))))
                    else
                      bind_exc (py_in ''invalid'' page) (\<lambda>invalid.
                        if invalid then
                          bind_exc (dict_get page ''invalidreason'' (JStr ''unknown''))
                            (\<lambda>reason.
                              Inr (Inl (Inl (MsgVal ''Invalid page title: '' reason),
                                        dict_set diagnostics ''invalid'' (DVal reason))))
                        else
                          bind_exc (dict_get page ''extract'' (JStr [])) (\<lambda>content.
                          bind_exc (py_len content) (\<lambda>n.
                            let diagnostics =
                              dict_set diagnostics ''extract_length'' (DVal (JNum (int n))) in
                            if \<not> truthy content then
                              bind_exc (dict_get page ''pageprops'' (JObj [])) (\<lambda>pageprops.
                              bind_exc (py_in ''disambiguation'' pageprops) (\<lambda>disamb.
                                if disamb then
                                  Inr (Inl (Inl (Msg
                                    ''Disambiguation page (no article content)''),
                                    dict_set diagnostics ''is_disambiguation''
                                      (DVal (JBool True))))
                                else Inr (Inr diagnostics)))
                            else Inr (Inl (Inr content, diagnostics)))))))) of
               Inl e \<Rightarrow> (Inl e, False)
             | Inr (Inl r) \<Rightarrow> (Inr r, False)
             | Inr (Inr diagnostics) \<Rightarrow> (read_revisions rev_response diagnostics, True)))"

text \<open>
  \<open>net k\<close> is what the first request of attempt \<open>k\<close> meets, \<open>rev_response\<close> what the request for
  the raw revision meets.
\<close>

function diagnose_and_fetch ::
  "(nat \<Rightarrow> http_outcome) \<Rightarrow> http_outcome \<Rightarrow> string \<Rightarrow> string \<Rightarrow> nat \<Rightarrow>
     ((message + json) \<times> diagnostics) fetched" where
  "diagnose_and_fetch net rev_response lang page_title retry_count =
     (case net retry_count of
        Raises e \<Rightarrow> finished (diagnose_handler e)
      | Response status b \<Rightarrow>
          if status = 429 then
            (if retry_count < MAX_RETRIES then
               after_sleep (RETRY_DELAYS ! retry_count)
                 (diagnose_and_fetch net rev_response lang page_title (retry_count + 1))
             else finished (Inl (Msg ''Rate limited - max retries exceeded''), []))
          else if status = 503 then
            (if retry_count < MAX_RETRIES then
               after_sleep (RETRY_DELAYS ! retry_count)
                 (diagnose_and_fetch net rev_response lang page_title (retry_count + 1))
             else finished (Inl (Msg ''Service unavailable - max retries exceeded''), []))
          else
            (case read_diagnosed lang page_title status b rev_response of
               (r, second) \<Rightarrow>
                 (finished (case r of Inl e \<Rightarrow> diagnose_handler e | Inr x \<Rightarrow> x))
                   \<lparr> requests := (if second then 2 else 1) \<rparr>))"
  by pat_completeness auto
termination
  by (relation "measure (\<lambda>(net, rev_response, lang, page_title, retry_count). MAX_RETRIES - retry_count)")
     auto

declare diagnose_and_fetch.simps [simp del]


section \<open>Strings as the scripts handle them\<close>

text \<open>
  The characters that \<open>str.strip\<close>, \<open>str.split\<close> and the pattern \<open>\s\<close> take for white
  space, among the ASCII characters: tab, line feed, vertical tab, form feed, carriage
  return, the four separators 0x1C to 0x1F, and the space.
\<close>

definition py_space :: "char \<Rightarrow> bool" where
  "py_space c =
     (c \<in> set [CHR 0x09, CHR 0x0A, CHR 0x0B, CHR 0x0C, CHR 0x0D,
                CHR 0x1C, CHR 0x1D, CHR 0x1E, CHR 0x1F, CHR 0x20])"

definition strip :: "string \<Rightarrow> string" where
  "strip s = rev (dropWhile py_space (rev (dropWhile py_space s)))"

text \<open>\<open>s.split()\<close>: the maximal runs of characters that are not white space.\<close>

fun split_ws_from :: "string \<Rightarrow> string \<Rightarrow> string list" where
  "split_ws_from cur [] = (if cur = [] then [] else [rev cur])"
| "split_ws_from cur (c # cs) =
     (if py_space c then
        (if cur = [] then split_ws_from [] cs else rev cur # split_ws_from [] cs)
      else split_ws_from (c # cur) cs)"

definition split_ws :: "string \<Rightarrow> string list" where
  "split_ws s = split_ws_from [] s"

text \<open>\<open>s.split(sep, 1)\<close> for a separator of one character: one part or two.\<close>

definition split_once :: "char \<Rightarrow> string \<Rightarrow> string list" where
  "split_once sep s =
     (if sep \<in> set s
      then [takeWhile (\<lambda>c. c \<noteq> sep) s, tl (dropWhile (\<lambda>c. c \<noteq> sep) s)]
      else [s])"

text \<open>\<open>str(n)\<close> of a non-negative integer, and \<open>int(s)\<close> of a string of digits.\<close>

definition digit_char :: "nat \<Rightarrow> char" where
  "digit_char d = ''0123456789'' ! d"

definition is_digit :: "char \<Rightarrow> bool" where
  "is_digit c = (c \<in> set ''0123456789'')"

definition digit_value :: "char \<Rightarrow> nat" where
  "digit_value c = length (takeWhile (\<lambda>d. d \<noteq> c) ''0123456789'')"

function str_nat :: "nat \<Rightarrow> string" where
  "str_nat n = (if n < 10 then [digit_char n] else str_nat (n div 10) @ [digit_char (n mod 10)])"
  by pat_completeness auto
termination
  by (relation "measure id") auto

declare str_nat.simps [simp del]

definition int_of_digits :: "string \<Rightarrow> nat" where
  "int_of_digits s = foldl (\<lambda>a c. 10 * a + digit_value c) 0 s"

section \<open>Filename allocator\<close>

text \<open>
  The counters are a \<open>defaultdict(int)\<close> keyed by \<open>f"{book_id}_{lang}"\<close>: a key never
  touched reads as 0. Both pipelines hold the same lines:
  \<^verbatim>\<open>
  lang_key = f"{book_id}_{lang}"
  language_counters[lang_key] += 1
  if language_counters[lang_key] == 1:
      filename = f"{book_id}_{lang}.txt"
  else:
      filename = f"{book_id}_{lang}_{language_counters[lang_key]}.txt"
  \<close>
\<close>

type_synonym counters = "string \<Rightarrow> nat"

definition lang_key :: "string \<Rightarrow> string \<Rightarrow> string" where
  "lang_key book_id lang = book_id @ ''_'' @ lang"

definition filename_for :: "string \<Rightarrow> string \<Rightarrow> nat \<Rightarrow> string" where
  "filename_for book_id lang n =
     (if n = 1 then book_id @ ''_'' @ lang @ ''.txt''
      else book_id @ ''_'' @ lang @ ''_'' @ str_nat n @ ''.txt'')"

definition allocate :: "counters \<Rightarrow> string \<Rightarrow> string \<Rightarrow> counters \<times> string" where
  "allocate language_counters book_id lang =
     (let key = lang_key book_id lang;
          language_counters = language_counters(key := language_counters key + 1)
      in (language_counters, filename_for book_id lang (language_counters key)))"


text \<open>
  The scan of the output directory in \<open>retry_failed.py\<close>:
  \<open>re.match(r'(\d+)_([a-z\-]+)(?:_(\d+))?\.txt', filename)\<close>, anchored at the start of the
  name only. Each repetition is followed by a character outside its class, so only the
  longest run can match; the optional group is tried first and dropped when \<open>.txt\<close> does
  not follow it.
\<close>

definition scan_name :: "string \<Rightarrow> (string \<times> string \<times> string option) option" where
  "scan_name filename =
     (let book_id = takeWhile is_digit filename;
          r1 = dropWhile is_digit filename
      in if book_id = [] then None
         else (case strip_prefix ''_'' r1 of
                 None \<Rightarrow> None
               | Some r2 \<Rightarrow>
                   let lang = takeWhile lower_or_hyphen r2;
                       r3 = dropWhile lower_or_hyphen r2
                   in if lang = [] then None
                      else (case (case strip_prefix ''_'' r3 of
                                    None \<Rightarrow> None
                                  | Some r4 \<Rightarrow>
                                      let counter = takeWhile is_digit r4;
                                          r5 = dropWhile is_digit r4
                                      in if counter \<noteq> [] \<and> strip_prefix ''.txt'' r5 \<noteq> None
                                         then Some (book_id, lang, Some counter)
                                         else None) of
                              Some m \<Rightarrow> Some m
                            | None \<Rightarrow>
                                if strip_prefix ''.txt'' r3 \<noteq> None
                                then Some (book_id, lang, None)
                                else None)))"

text \<open>
  \<open>count = int(counter) if counter else 1\<close> and
  \<open>language_counters[lang_key] = max(language_counters[lang_key], count)\<close>, for every name
  of the directory listing.
\<close>

definition seed_one :: "counters \<Rightarrow> string \<Rightarrow> counters" where
  "seed_one language_counters filename =
     (case scan_name filename of
        None \<Rightarrow> language_counters
      | Some (book_id, lang, counter) \<Rightarrow>
          let key = lang_key book_id lang;
              count = (case counter of Some c \<Rightarrow> int_of_digits c | None \<Rightarrow> 1)
          in language_counters(key := max (language_counters key) count))"

definition seed_counters :: "string list \<Rightarrow> counters" where
  "seed_counters listing = foldl seed_one (\<lambda>_. 0) listing"

section \<open>Title extractor\<close>

text \<open>
  \<open>re.search(r'/wiki/(.+)$', url)\<close>: \<open>.\<close> matches any character but a line feed, and
  \<open>$\<close> matches at the end of the text or before a line feed that ends it; the search
  tries the start positions from left to right.
\<close>

definition title_here :: "string \<Rightarrow> string option" where
  "title_here s =
     (case strip_prefix ''/wiki/'' s of
        None \<Rightarrow> None
      | Some r \<Rightarrow>
          let run = takeWhile (\<lambda>c. c \<noteq> CHR 0x0A) r;
              after = dropWhile (\<lambda>c. c \<noteq> CHR 0x0A) r
          in if run \<noteq> [] \<and> (after = [] \<or> after = [CHR 0x0A]) then Some run else None)"

fun title_search :: "string \<Rightarrow> string option" where
  "title_search [] = title_here []"
| "title_search (c # cs) =
     (case title_here (c # cs) of
        Some t \<Rightarrow> Some t
      | None \<Rightarrow> title_search cs)"

text \<open>
  \<open>urllib.parse.unquote\<close>, on the bytes of the text: \<open>%\<close> followed by two hexadecimal
  digits stands for the byte they name; everything else stays. (The library then reads the
  bytes as UTF-8 and puts a replacement character for a sequence that is none; the model
  keeps the bytes.)
\<close>

definition hex_value :: "char \<Rightarrow> nat option" where
  "hex_value c =
     (if c \<in> set ''0123456789'' then Some (length (takeWhile (\<lambda>d. d \<noteq> c) ''0123456789''))
      else if c \<in> set ''abcdef'' then Some (10 + length (takeWhile (\<lambda>d. d \<noteq> c) ''abcdef''))
      else if c \<in> set ''ABCDEF'' then Some (10 + length (takeWhile (\<lambda>d. d \<noteq> c) ''ABCDEF''))
      else None)"

fun unquote :: "string \<Rightarrow> string" where
  "unquote (c # a # b # rest) =
     (case (if c = CHR ''%'' then hex_value a else None, hex_value b) of
        (Some x, Some y) \<Rightarrow> char_of (16 * x + y) # unquote rest
      | _ \<Rightarrow> c # unquote (a # b # rest))"
| "unquote s = s"

text \<open>
  \<open>extract_page_title\<close> of \<open>get_wiki_articles.py\<close> strips the URL, then strips carriage
  returns and line feeds from its right end; the one of \<open>retry_failed.py\<close> only strips.
  \<open>None\<close> is Python's \<open>None\<close>.
\<close>

definition rstrip_crlf :: "string \<Rightarrow> string" where
  "rstrip_crlf s = rev (dropWhile (\<lambda>c. c = CHR 0x0D \<or> c = CHR 0x0A) (rev s))"

definition extract_page_title :: "string \<Rightarrow> string option" where
  "extract_page_title url = map_option unquote (title_search (rstrip_crlf (strip url)))"

definition extract_page_title_retry :: "string \<Rightarrow> string option" where
  "extract_page_title_retry url = map_option unquote (title_search (strip url))"

section \<open>Checkpoint store and the pipeline drivers\<close>

text \<open>
  An entry of the checkpoint of the fetch pipelines. The time stamp is the reading of a
  clock that ticks at every use.
\<close>

record entry =
  status :: string
  filename :: "string option"
  timestamp :: nat

text \<open>
  The world around a run: what a request for a page meets at each attempt (by language
  subdomain and title), what the request for the raw revision meets, whether a file of the
  output directory can be opened for writing, and whether the write of the checkpoint file
  at a given clock reading goes through.
\<close>

record env =
  net :: "string \<Rightarrow> string \<Rightarrow> nat \<Rightarrow> http_outcome"
  rev_net :: "string \<Rightarrow> string \<Rightarrow> http_outcome"
  article_writable :: "string \<Rightarrow> bool"
  progress_writable :: "nat \<Rightarrow> bool"

text \<open>
  The state a run works on: the progress dict in memory, the checkpoint file, the output
  directory (names and contents, in listing order), the counters, the statistics, the error
  log, and two traces: the article files written and the pages requested, in order.
\<close>

record run_state =
  progress :: "(string \<times> entry) list"
  progress_file :: "entry checkpoint_file"
  articles :: "(string \<times> string) list"
  language_counters :: counters
  clock :: nat
  total_urls :: nat
  successful :: nat
  failed :: nat
  skipped :: nat
  failed_book_ids :: "string list"
  error_log :: "(string \<times> string \<times> message) list"
  written :: "string list"
  fetched :: "(string \<times> string) list"

text \<open>
  \<open>save_article\<close>: \<open>open(filepath, 'w')\<close> creates or empties the file, \<open>f.write\<close> raises
  TypeError on a content that is no string; every exception is caught and gives \<open>False\<close>.
\<close>

definition save_article :: "env \<Rightarrow> json \<Rightarrow> string \<Rightarrow> run_state \<Rightarrow> bool \<times> run_state" where
  "save_article e content name s =
     (if \<not> article_writable e name then (False, s)
      else (case content of
              JStr text \<Rightarrow>
                (True, s \<lparr> articles := dict_set (articles s) name text,
                           written := written s @ [name] \<rparr>)
            | _ \<Rightarrow> (False, s \<lparr> articles := dict_set (articles s) name [] \<rparr>)))"

text \<open>
  \<open>save_progress_entry\<close> of \<open>get_wiki_articles.py\<close>: the entry is set in the dict, then
  the whole dict is written to the file; a failed write is logged and nothing more (the
  file is taken to stay as it was).
\<close>

definition save_progress_entry ::
  "env \<Rightarrow> string \<Rightarrow> string \<Rightarrow> string \<Rightarrow> string option \<Rightarrow> run_state \<Rightarrow> run_state" where
  "save_progress_entry e book_id url st fname s =
     (let key = book_id @ ''|'' @ url;
          progress = dict_set (progress s) key
                       \<lparr> status = st, filename = fname, timestamp = clock s \<rparr>;
          s = s \<lparr> progress := progress, clock := clock s + 1 \<rparr>
      in if progress_writable e (clock s) then s \<lparr> progress_file := Holds progress \<rparr> else s)"

definition log_error :: "string \<Rightarrow> string \<Rightarrow> message \<Rightarrow> run_state \<Rightarrow> run_state" where
  "log_error book_id url error_message s =
     s \<lparr> error_log := error_log s @ [(book_id, url, error_message)], clock := clock s + 1 \<rparr>"

text \<open>The four lines every failure branch of \<open>process_line\<close> runs.\<close>

definition record_failure ::
  "env \<Rightarrow> string \<Rightarrow> string \<Rightarrow> message \<Rightarrow> run_state \<Rightarrow> run_state" where
  "record_failure e book_id url error_msg s =
     (let s = log_error book_id url error_msg s;
          s = save_progress_entry e book_id url ''failed'' None s
      in s \<lparr> failed := failed s + 1, failed_book_ids := failed_book_ids s @ [book_id] \<rparr>)"

text \<open>One turn of \<open>for url in urls\<close> in \<open>process_line\<close>.\<close>

definition process_url :: "env \<Rightarrow> string \<Rightarrow> run_state \<Rightarrow> string \<Rightarrow> run_state" where
  "process_url e book_id s url0 =
     (let url = strip url0 in
      if url = [] then s
      else
        let key = book_id @ ''|'' @ url in
        if key \<in> set (map fst (progress s)) then
          s \<lparr> skipped := skipped s + 1, total_urls := total_urls s + 1 \<rparr>
        else
          let s = s \<lparr> total_urls := total_urls s + 1 \<rparr>;
              lang = extract_language_code url
          in (case extract_page_title url of
                None \<Rightarrow> record_failure e book_id url (Msg ''Could not extract page title'') s
              | Some page_title \<Rightarrow>
                  if page_title = [] then
                    record_failure e book_id url (Msg ''Could not extract page title'') s
                  else
                    (case allocate (language_counters s) book_id lang of
                       (counters', name) \<Rightarrow>
                         let s = s \<lparr> language_counters := counters',
                                     fetched := fetched s @ [(lang, page_title)] \<rparr>
                         in (case outcome (fetch_wikipedia_content (net e lang page_title) 0) of
                               Inr result \<Rightarrow>
                                 (case save_article e result name s of
                                    (True, s) \<Rightarrow>
                                      (save_progress_entry e book_id url ''success''
                                         (Some name) s)
                                        \<lparr> successful := successful s + 1 \<rparr>
                                  | (False, s) \<Rightarrow>
                                      record_failure e book_id url
                                        (Msg ''Failed to save file'') s)
                             | Inl result \<Rightarrow> record_failure e book_id url result s))))"

text \<open>
  \<open>process_line\<close>: \<open>None\<close> for a line that is blank or has no comma, else the book id and
  the URLs.
\<close>

definition parse_line :: "string \<Rightarrow> (string \<times> string list) option" where
  "parse_line line0 =
     (let line = strip line0 in
      if line = [] then None
      else (case split_once CHR '','' line of
              [p0, p1] \<Rightarrow> Some (strip p0, split_ws (strip p1))
            | _ \<Rightarrow> None))"

definition process_line :: "env \<Rightarrow> run_state \<Rightarrow> string \<Rightarrow> run_state" where
  "process_line e s line =
     (case parse_line line of
        None \<Rightarrow> s
      | Some (book_id, urls) \<Rightarrow> foldl (process_url e book_id) s urls)"

text \<open>
  \<open>main\<close> of \<open>get_wiki_articles.py\<close> on the lines of the input file, the checkpoint file
  and the output directory it finds, at a clock reading: the progress is loaded, the
  counters start empty, and the lines are processed in order.
\<close>

definition start_state ::
  "entry checkpoint_file \<Rightarrow> (string \<times> string) list \<Rightarrow> nat \<Rightarrow> run_state" where
  "start_state file dir t =
     \<lparr> progress = (case load_progress file of Inr m \<Rightarrow> m | Inl _ \<Rightarrow> []),
       progress_file = file, articles = dir, language_counters = (\<lambda>_. 0), clock = t,
       total_urls = 0, successful = 0, failed = 0, skipped = 0, failed_book_ids = [],
       error_log = [], written = [], fetched = [] \<rparr>"

definition primary_main ::
  "env \<Rightarrow> string list \<Rightarrow> entry checkpoint_file \<Rightarrow> (string \<times> string) list \<Rightarrow> nat \<Rightarrow> run_state" where
  "primary_main e lines file dir t = foldl (process_line e) (start_state file dir t) lines"

subsection \<open>Retry pipeline\<close>

text \<open>
  \<open>save_progress\<close> of \<open>retry_failed.py\<close> writes the dict with no handler around the
  write.
\<close>

definition save_progress :: "env \<Rightarrow> run_state \<Rightarrow> exc + run_state" where
  "save_progress e s =
     (if progress_writable e (clock s) then Inr (s \<lparr> progress_file := Holds (progress s) \<rparr>)
      else Inl OSError)"

text \<open>
  One turn of \<open>for idx, (key, old_value) in enumerate(failed_entries, 1)\<close> in \<open>main\<close> of
  \<open>retry_failed.py\<close>. \<open>book_id, url = key.split('|', 1)\<close> raises ValueError on a key with
  no bar. The counters \<open>successful\<close> and \<open>failed\<close> stand for \<open>results['successful']\<close> and
  \<open>results['still_failed']\<close>; the list \<open>results['details']\<close>, which only goes to
  \<open>retry_results.json\<close>, is left out.
\<close>

definition retry_entry :: "env \<Rightarrow> run_state \<Rightarrow> string \<times> entry \<Rightarrow> exc + run_state" where
  "retry_entry e s kv =
     (case split_once CHR ''|'' (fst kv) of
        [book_id, url] \<Rightarrow>
          let lang = extract_language_code_retry url in
          (case extract_page_title_retry url of
             None \<Rightarrow> Inr (s \<lparr> failed := failed s + 1 \<rparr>)
           | Some page_title \<Rightarrow>
               if page_title = [] then Inr (s \<lparr> failed := failed s + 1 \<rparr>)
               else
                 let s = s \<lparr> fetched := fetched s @ [(lang, page_title)] \<rparr> in
                 (case fst (outcome (diagnose_and_fetch (net e lang page_title)
                                (rev_net e lang page_title) lang page_title 0)) of
                    Inr result \<Rightarrow>
                      (case allocate (language_counters s) book_id lang of
                         (counters', name) \<Rightarrow>
                           (case save_article e result name
                                   (s \<lparr> language_counters := counters' \<rparr>) of
                              (True, s) \<Rightarrow>
                                Inr (s \<lparr> progress := dict_set (progress s) (fst kv)
                                            \<lparr> status = ''success'', filename = Some name,
                                              timestamp = clock s \<rparr>,
                                          clock := clock s + 1,
                                          successful := successful s + 1 \<rparr>)
                            | (False, s) \<Rightarrow> Inr (s \<lparr> failed := failed s + 1 \<rparr>)))
                  | Inl result \<Rightarrow> Inr (s \<lparr> failed := failed s + 1 \<rparr>)))
      | _ \<Rightarrow> Inl ValueError)"

fun retry_loop :: "env \<Rightarrow> run_state \<Rightarrow> (string \<times> entry) list \<Rightarrow> exc + run_state" where
  "retry_loop e s [] = Inr s"
| "retry_loop e s (kv # kvs) = bind_exc (retry_entry e s kv) (\<lambda>s'. retry_loop e s' kvs)"

text \<open>
  \<open>main\<close> of \<open>retry_failed.py\<close>: the progress is loaded (the load may raise), the failed
  entries are picked, the counters are seeded from the listing of the output directory, the
  entries are retried, and only then the progress is saved.
\<close>

definition failed_entries :: "(string \<times> entry) list \<Rightarrow> (string \<times> entry) list" where
  "failed_entries loaded = filter (\<lambda>kv. status (snd kv) = ''failed'') loaded"

definition retry_start ::
  "(string \<times> entry) list \<Rightarrow> entry checkpoint_file \<Rightarrow> (string \<times> string) list \<Rightarrow> nat \<Rightarrow>
     run_state" where
  "retry_start loaded file dir t =
     \<lparr> progress = loaded, progress_file = file, articles = dir,
       language_counters = seed_counters (map fst dir), clock = t,
       total_urls = 0, successful = 0, failed = 0, skipped = 0, failed_book_ids = [],
       error_log = [], written = [], fetched = [] \<rparr>"

definition retry_main ::
  "env \<Rightarrow> entry checkpoint_file \<Rightarrow> (string \<times> string) list \<Rightarrow> nat \<Rightarrow> exc + run_state" where
  "retry_main e file dir t =
     bind_exc (load_progress_retry file) (\<lambda>loaded.
       if failed_entries loaded = [] then Inr (retry_start loaded file dir t)
       else
         bind_exc (retry_loop e (retry_start loaded file dir t) (failed_entries loaded))
           (save_progress e))"

section \<open>Notions used to state the properties of the drivers\<close>





section \<open>Sample surroundings for concrete runs\<close>

text \<open>
  A response whose page carries the given extract, and surroundings in which every page
  request is answered by a page whose extract is the requested title, every file can be
  written and every checkpoint write goes through.
\<close>

definition page_with :: "string \<Rightarrow> http_outcome" where
  "page_with text = Response 200 (BodyJson (JObj [(''query'', JObj [(''pages'',
      JObj [(''7'', JObj [(''pageid'', JNum 7), (''extract'', JStr text)])])])]))"

definition echo_env :: env where
  "echo_env = \<lparr> net = (\<lambda>lang title k. page_with title),
     rev_net = (\<lambda>lang title. Raises ReadTimeout),
     article_writable = (\<lambda>name. True), progress_writable = (\<lambda>t. True) \<rparr>"

text \<open>Entries as the primary pipeline records them.\<close>

definition failed_at :: "nat \<Rightarrow> entry" where
  "failed_at t = \<lparr> status = ''failed'', filename = None, timestamp = t \<rparr>"

definition success_at :: "string \<Rightarrow> nat \<Rightarrow> entry" where
  "success_at name t = \<lparr> status = ''success'', filename = Some name, timestamp = t \<rparr>"

section \<open>Properties of the URL resolver\<close>

lemma first_lang_match_hit:
  "\<forall>(u', l') \<in> set pre. l' \<noteq> language \<Longrightarrow>
   first_lang_match (pre @ (u, language) # post) language = Some u"
  by (induction pre) auto

lemma first_lang_match_miss:
  "\<forall>(u', l') \<in> set urls. l' \<noteq> language \<Longrightarrow> first_lang_match urls language = None"
  by (induction urls) auto

text \<open>
  C5, as stated, fails on a book id whose candidate list is empty (the loader stores such a
  list for a line \<open>"7,"\<close>): \<open>urls[0][0]\<close> raises IndexError, and no URL is returned.
\<close>

theorem find_wikipedia_url_empty_candidates:
  "\<not> (\<exists>u. find_wikipedia_url [''7'' \<mapsto> []] ''7'' ''en'' = Inr u)"
  by (simp add: find_wikipedia_url_def index0_def)

text \<open>
  C5 (amended): an unknown book id gives the sentinel \<open>URL_NOT_FOUND\<close>; a single
  candidate is returned whatever language is requested; for two or more candidates the
  result is the URL of the first candidate in list order whose tag equals the requested
  language, and the URL of the first candidate when no tag matches.
\<close>

theorem find_wikipedia_url_resolves:
  "(url_mapping book_id = None \<longrightarrow>
      find_wikipedia_url url_mapping book_id language = Inr ''URL_NOT_FOUND'') \<and>
   (url_mapping book_id = Some [(u, l)] \<longrightarrow>
      find_wikipedia_url url_mapping book_id language = Inr u) \<and>
   (url_mapping book_id = Some (pre @ (u, language) # post) \<and>
    (\<forall>(u', l') \<in> set pre. l' \<noteq> language) \<longrightarrow>
      find_wikipedia_url url_mapping book_id language = Inr u) \<and>
   (url_mapping book_id = Some ((u, l) # rest) \<and> rest \<noteq> [] \<and>
    (\<forall>(u', l') \<in> set ((u, l) # rest). l' \<noteq> language) \<longrightarrow>
      find_wikipedia_url url_mapping book_id language = Inr u)"
proof (intro conjI impI)
  assume "url_mapping book_id = None"
  then show "find_wikipedia_url url_mapping book_id language = Inr ''URL_NOT_FOUND''"
    by (simp add: find_wikipedia_url_def)
next
  assume "url_mapping book_id = Some [(u, l)]"
  then show "find_wikipedia_url url_mapping book_id language = Inr u"
    by (simp add: find_wikipedia_url_def index0_def)
next
  assume a: "url_mapping book_id = Some (pre @ (u, language) # post) \<and>
    (\<forall>(u', l') \<in> set pre. l' \<noteq> language)"
  then have "first_lang_match (pre @ (u, language) # post) language = Some u"
    by (simp add: first_lang_match_hit)
  with a show "find_wikipedia_url url_mapping book_id language = Inr u"
    by (auto simp: find_wikipedia_url_def index0_def)
next
  assume a: "url_mapping book_id = Some ((u, l) # rest) \<and> rest \<noteq> [] \<and>
    (\<forall>(u', l') \<in> set ((u, l) # rest). l' \<noteq> language)"
  then have "first_lang_match ((u, l) # rest) language = None"
    using first_lang_match_miss by blast
  with a show "find_wikipedia_url url_mapping book_id language = Inr u"
    by (simp add: find_wikipedia_url_def index0_def)
qed

theorem find_wikipedia_url_resolves_witness:
  "find_wikipedia_url [''100'' \<mapsto> [(''https://fr.wikipedia.org/wiki/A'', ''fr'')]] ''5'' ''en''
     = Inr ''URL_NOT_FOUND'' \<and>
   find_wikipedia_url [''100'' \<mapsto> [(''https://fr.wikipedia.org/wiki/A'', ''fr'')]] ''100'' ''en''
     = Inr ''https://fr.wikipedia.org/wiki/A'' \<and>
   find_wikipedia_url [''100'' \<mapsto> [(''https://fr.wikipedia.org/wiki/A'', ''fr''),
       (''https://en.wikipedia.org/wiki/B'', ''en''), (''https://en.wikipedia.org/wiki/C'', ''en'')]]
     ''100'' ''en'' = Inr ''https://en.wikipedia.org/wiki/B'' \<and>
   find_wikipedia_url [''100'' \<mapsto> [(''https://fr.wikipedia.org/wiki/A'', ''fr''),
       (''https://en.wikipedia.org/wiki/B'', ''en'')]] ''100'' ''de''
     = Inr ''https://fr.wikipedia.org/wiki/A''"
proof (intro conjI)
  let ?a = "(''https://fr.wikipedia.org/wiki/A'', ''fr'')"
  let ?b = "(''https://en.wikipedia.org/wiki/B'', ''en'')"
  let ?c = "(''https://en.wikipedia.org/wiki/C'', ''en'')"
  show "find_wikipedia_url [''100'' \<mapsto> [?a]] ''5'' ''en'' = Inr ''URL_NOT_FOUND''"
    using find_wikipedia_url_resolves [of "[''100'' \<mapsto> [?a]]" "''5''" _ _ "''en''"]
    by simp
  show "find_wikipedia_url [''100'' \<mapsto> [?a]] ''100'' ''en''
          = Inr ''https://fr.wikipedia.org/wiki/A''"
    using find_wikipedia_url_resolves
      [of "[''100'' \<mapsto> [?a]]" "''100''" "''en''" "fst ?a" "''fr''"]
    by simp
  show "find_wikipedia_url [''100'' \<mapsto> [?a, ?b, ?c]] ''100'' ''en''
          = Inr ''https://en.wikipedia.org/wiki/B''"
    using find_wikipedia_url_resolves
      [of "[''100'' \<mapsto> [?a, ?b, ?c]]" "''100''" "''en''" "fst ?b" _ "[?a]" "[?c]"]
    by simp
  show "find_wikipedia_url [''100'' \<mapsto> [?a, ?b]] ''100'' ''de''
          = Inr ''https://fr.wikipedia.org/wiki/A''"
    using find_wikipedia_url_resolves
      [of "[''100'' \<mapsto> [?a, ?b]]" "''100''" "''de''" "fst ?a" "''fr''" _ _ "[?b]"]
    by simp
qed

section \<open>Properties of the summary reports\<close>

lemma truediv_raises: "(truediv a b = Inl e) = (b = 0 \<and> e = ZeroDivisionError)"
  by (auto simp: truediv_def)

text \<open>
  C10: the validation summary divides by \<open>total_processed\<close>, \<open>matches\<close> and
  \<open>mismatches\<close> without a guard, so it raises ZeroDivisionError exactly when one of the
  three counts is zero and yields its figures otherwise; the success rate of the primary
  pipeline divides by \<open>max(total_urls - skipped, 1)\<close> and never raises.
\<close>

theorem generate_summary_zero_division:
  "(generate_summary stats = Inl ZeroDivisionError) =
     (total_processed stats = 0 \<or> matches stats = 0 \<or> mismatches stats = 0) \<and>
   (total_processed stats \<noteq> 0 \<and> matches stats \<noteq> 0 \<and> mismatches stats \<noteq> 0 \<longrightarrow>
      (\<exists>s. generate_summary stats = Inr s)) \<and>
   (\<exists>r. success_rate n_ok n_urls n_skipped = Inr r)"
  by (auto simp: generate_summary_def success_rate_def truediv_def bind_exc_def Let_def)

theorem generate_summary_zero_division_witness:
  "generate_summary \<lparr> total_processed = 0, matches = 0, mismatches = 0, errors = 3,
       match_confidence = (\<lambda>_. 0), mismatch_confidence = (\<lambda>_. 0) \<rparr> = Inl ZeroDivisionError \<and>
   generate_summary \<lparr> total_processed = 2, matches = 2, mismatches = 0, errors = 0,
       match_confidence = (\<lambda>_. 0)(''HIGH'' := 2), mismatch_confidence = (\<lambda>_. 0) \<rparr>
     = Inl ZeroDivisionError \<and>
   (\<exists>s. generate_summary \<lparr> total_processed = 2, matches = 1, mismatches = 1, errors = 0,
       match_confidence = (\<lambda>_. 0)(''HIGH'' := 1),
       mismatch_confidence = (\<lambda>_. 0)(''LOW'' := 1) \<rparr> = Inr s) \<and>
   (\<exists>r. success_rate 0 0 0 = Inr r)"
proof (intro conjI)
  let ?s0 = "\<lparr> total_processed = 0, matches = 0, mismatches = 0, errors = 3,
       match_confidence = (\<lambda>_. 0), mismatch_confidence = (\<lambda>_. 0) \<rparr>"
  let ?s1 = "\<lparr> total_processed = 2, matches = 2, mismatches = 0, errors = 0,
       match_confidence = (\<lambda>_. 0)(''HIGH'' := 2), mismatch_confidence = (\<lambda>_. 0) \<rparr>"
  let ?s2 = "\<lparr> total_processed = 2, matches = 1, mismatches = 1, errors = 0,
       match_confidence = (\<lambda>_. 0)(''HIGH'' := 1),
       mismatch_confidence = (\<lambda>_. 0)(''LOW'' := 1) \<rparr>"
  show "generate_summary ?s0 = Inl ZeroDivisionError"
    using generate_summary_zero_division [of ?s0] by simp
  show "generate_summary ?s1 = Inl ZeroDivisionError"
    using generate_summary_zero_division [of ?s1] by simp
  show "\<exists>s. generate_summary ?s2 = Inr s"
    using generate_summary_zero_division [of ?s2] by simp
  show "\<exists>r. success_rate 0 0 0 = Inr r"
    using generate_summary_zero_division [of undefined 0 0 0] by blast
qed

section \<open>Properties of the language extractor\<close>

lemma strip_prefix_Some: "(strip_prefix p s = Some r) = (s = p @ r)"
  by (induction p s rule: strip_prefix.induct) auto

lemma strip_prefix_append: "strip_prefix p (p @ r) = Some r"
  by (simp add: strip_prefix_Some)

lemma strip_prefix_None: "(strip_prefix p s = None) = (\<forall>r. s \<noteq> p @ r)"
  by (metis strip_prefix_Some option.exhaust option.distinct(1))

lemma group_exact_Some:
  "(group_exact cls n s = Some g) =
     (length g = n \<and> list_all cls g \<and> (\<exists>rest. s = g @ wikipedia_org @ rest))"
proof
  assume a: "group_exact cls n s = Some g"
  have n: "n \<le> length s \<and> list_all cls (take n s)"
    using a unfolding group_exact_def by (simp split: if_splits)
  then have b: "(case strip_prefix wikipedia_org (drop n s) of
                   Some _ \<Rightarrow> Some (take n s) | None \<Rightarrow> None) = Some g"
    using a unfolding group_exact_def by simp
  then obtain rest where r: "strip_prefix wikipedia_org (drop n s) = Some rest"
    by (cases "strip_prefix wikipedia_org (drop n s)") simp_all
  with b have g: "g = take n s" by simp
  from r have "drop n s = wikipedia_org @ rest" by (simp only: strip_prefix_Some)
  then have "s = g @ wikipedia_org @ rest"
    using g by (metis append_take_drop_id)
  moreover have "length g = n" using g n by simp
  moreover have "list_all cls g" using g n by simp
  ultimately show "length g = n \<and> list_all cls g \<and> (\<exists>rest. s = g @ wikipedia_org @ rest)"
    by blast
next
  assume "length g = n \<and> list_all cls g \<and> (\<exists>rest. s = g @ wikipedia_org @ rest)"
  then obtain rest where l: "length g = n" and c: "list_all cls g"
    and s: "s = g @ wikipedia_org @ rest" by blast
  from l s have t: "take n s = g" and d: "drop n s = wikipedia_org @ rest" by simp_all
  have "strip_prefix wikipedia_org (drop n s) = Some rest"
    by (simp only: d strip_prefix_Some)
  moreover have "n \<le> length s" using l s by simp
  ultimately show "group_exact cls n s = Some g"
    unfolding group_exact_def using t c by simp
qed


lemma wikipedia_org_dot: "\<exists>t. wikipedia_org = CHR ''.'' # t"
  by (simp add: wikipedia_org_def)

lemma tagged_unique:
  assumes "\<not> cls CHR ''.''" "list_all cls g" "list_all cls g'"
    and "g @ wikipedia_org @ rest = g' @ wikipedia_org @ rest'"
  shows "g = g'"
proof -
  have tw: "takeWhile cls (h @ wikipedia_org @ r) = h" if "list_all cls h" for h r
  proof -
    have "takeWhile cls (wikipedia_org @ r) = []"
      using assms(1) by (simp add: wikipedia_org_def)
    with that show ?thesis by (induction h) simp_all
  qed
  from assms(2,3,4) tw [of g rest] tw [of g' rest'] show ?thesis by simp
qed

lemma group_upto_I:
  assumes dot: "\<not> cls CHR ''.''" and c: "list_all cls g"
    and lo: "lo \<le> length g" and hi: "length g \<le> lo + d"
  shows "group_upto cls lo d (g @ wikipedia_org @ rest) = Some g"
  using hi
proof (induction d)
  case 0
  with lo have "length g = lo" by simp
  with c show ?case by (simp del: append.simps add: group_exact_Some)
next
  case (Suc d)
  show ?case
  proof (cases "length g = lo + Suc d")
    case True
    with c have "group_exact cls (lo + Suc d) (g @ wikipedia_org @ rest) = Some g"
      by (simp del: append.simps add: group_exact_Some)
    then show ?thesis by simp
  next
    case False
    with Suc have ih: "group_upto cls lo d (g @ wikipedia_org @ rest) = Some g" by simp
    show ?thesis
    proof (cases "group_exact cls (lo + Suc d) (g @ wikipedia_org @ rest)")
      case None
      with ih show ?thesis by simp
    next
      case (Some g')
      then have "list_all cls g'" and "\<exists>r'. g @ wikipedia_org @ rest = g' @ wikipedia_org @ r'"
        unfolding group_exact_Some by auto
      with tagged_unique [OF dot c] have "g = g'" by blast
      with Some show ?thesis by simp
    qed
  qed
qed



lemma lang_here_I:
  assumes dot: "\<not> cls CHR ''.''" and tg: "tag cls lo hi g"
    and sch: "sch = ''http'' \<or> sch = ''https''"
  shows "lang_here cls lo hi (sch @ ''://'' @ g @ wikipedia_org @ rest) = Some g"
proof -
  from tg have c: "list_all cls g" and lo: "lo \<le> length g" and hi: "length g \<le> lo + (hi - lo)"
    unfolding tag_def by auto
  have grp: "group_upto cls lo (hi - lo) (g @ wikipedia_org @ rest) = Some g"
    by (rule group_upto_I [OF dot c lo hi])
  from sch show ?thesis
  proof
    assume h: "sch = ''http''"
    have a: "strip_prefix ''http'' (sch @ ''://'' @ g @ wikipedia_org @ rest)
               = Some (''://'' @ g @ wikipedia_org @ rest)"
      unfolding h by (simp only: strip_prefix_Some)
    have b: "strip_prefix ''s://'' (''://'' @ g @ wikipedia_org @ rest) = None" by simp
    have c: "strip_prefix ''://'' (''://'' @ g @ wikipedia_org @ rest)
               = Some (g @ wikipedia_org @ rest)"
      by (simp only: strip_prefix_Some)
    show ?thesis by (simp only: lang_here_def a b c option.case grp)
  next
    assume h: "sch = ''https''"
    have a: "strip_prefix ''http'' (sch @ ''://'' @ g @ wikipedia_org @ rest)
               = Some (''s://'' @ g @ wikipedia_org @ rest)"
      unfolding h by (simp add: strip_prefix_Some)
    have b: "strip_prefix ''s://'' (''s://'' @ g @ wikipedia_org @ rest)
               = Some (g @ wikipedia_org @ rest)"
      by (simp only: strip_prefix_Some)
    show ?thesis by (simp only: lang_here_def a b option.case grp)
  qed
qed



lemma lang_search_None_D:
  "lang_search cls lo hi (pre @ s') = None \<Longrightarrow> lang_here cls lo hi s' = None"
proof (induction pre)
  case Nil
  then show ?case by (cases s') (simp_all split: option.splits)
next
  case (Cons c pre)
  then show ?case by (simp split: option.splits)
qed


lemma lang_search_complete:
  assumes dot: "\<not> cls CHR ''.''" and "lang_search cls lo hi url = None"
  shows "\<not> occurs_tagged cls lo hi g url"
proof
  assume "occurs_tagged cls lo hi g url"
  then obtain pre sch rest where tg: "tag cls lo hi g"
    and sch: "sch = ''http'' \<or> sch = ''https''"
    and u: "url = pre @ (sch @ ''://'' @ g @ wikipedia_org @ rest)"
    unfolding occurs_tagged_def by auto
  from assms(2) u have "lang_here cls lo hi (sch @ ''://'' @ g @ wikipedia_org @ rest) = None"
    using lang_search_None_D by blast
  with lang_here_I [OF dot tg sch] show False by simp
qed



















section \<open>Properties of checkpoint loading\<close>

lemma load_progress_fail_open:
  "load_progress f = (case f of Holds m \<Rightarrow> Inr m | _ \<Rightarrow> Inr [])"
  by (cases f)
     (simp_all add: load_progress_def path_exists_def read_text_def json_loads_def bind_exc_def)

text \<open>
  C4 fails on the code: \<open>load_progress\<close> of the retry pipeline has no handler, so a
  checkpoint file holding invalid JSON, or one that cannot be opened, raises out of the load
  (and out of \<open>main\<close>, which calls it unguarded); the load of the validation pipeline lets
  UnicodeDecodeError through. The load of the primary pipeline, next to them, returns the
  empty mapping in each of these states.
\<close>

theorem load_progress_retry_raises:
  "load_progress_retry (Malformed :: 'a checkpoint_file) = Inl JSONDecodeError \<and>
   load_progress_retry (Blank :: 'a checkpoint_file) = Inl JSONDecodeError \<and>
   load_progress_retry (Unopenable :: 'a checkpoint_file) = Inl OSError \<and>
   load_progress_retry (Undecodable :: 'a checkpoint_file) = Inl UnicodeDecodeError \<and>
   load_validation_progress (Undecodable :: 'a checkpoint_file) = Inl UnicodeDecodeError \<and>
   load_validation_progress (Malformed :: 'a checkpoint_file) = Inr [] \<and>
   load_progress (Malformed :: 'a checkpoint_file) = Inr [] \<and>
   load_progress (Unopenable :: 'a checkpoint_file) = Inr [] \<and>
   load_progress (Undecodable :: 'a checkpoint_file) = Inr []"
  by (simp add: load_progress_def load_progress_retry_def load_validation_progress_def
      path_exists_def read_text_def json_loads_def bind_exc_def)

section \<open>Properties of the fetch adapters\<close>






























section \<open>Properties of the primary pipeline\<close>
























section \<open>Properties of the checkpoint and of the output names across runs\<close>

lemma retry_entry_keeps_file:
  "retry_entry e s kv = Inr s' \<Longrightarrow> progress_file s' = progress_file s"
  unfolding retry_entry_def Let_def
  by (auto simp: save_article_def split: list.splits option.splits if_splits sum.splits
      prod.splits json.splits bool.splits)

lemma retry_loop_keeps_file:
  "retry_loop e s kvs = Inr s' \<Longrightarrow> progress_file s' = progress_file s"
proof (induction kvs arbitrary: s)
  case Nil
  then show ?case by simp
next
  case (Cons kv kvs)
  then obtain s1 where s1: "retry_entry e s kv = Inr s1" and r: "retry_loop e s1 kvs = Inr s'"
    by (auto simp: bind_exc_def split: sum.splits)
  from Cons.IH [OF r] retry_entry_keeps_file [OF s1] show ?case by simp
qed

text \<open>
  C2 fails on the code: the loop of the retry pipeline changes the progress dict in memory
  only; the checkpoint file is written once, after the loop. With two failed entries in the
  checkpoint, after the first has been retried with success (its article is on disk and the
  dict says \<open>success\<close>) the file still lists both as \<open>failed\<close>, so a process that ends here
  loses that outcome; the file is brought up to date only by \<open>save_progress\<close> at the end of
  \<open>main\<close>. The primary pipeline, on the same kind of step, has written the file.
\<close>

theorem retry_loop_leaves_checkpoint_file:
  "map_sum id (\<lambda>s. (progress_file s, articles s, map (\<lambda>kv. status (snd kv)) (progress s)))
     (retry_loop echo_env
        (retry_start
           [(''100|http://en.wikipedia.org/wiki/A'', failed_at 0),
            (''100|http://en.wikipedia.org/wiki/B'', failed_at 1)]
           (Holds [(''100|http://en.wikipedia.org/wiki/A'', failed_at 0),
                   (''100|http://en.wikipedia.org/wiki/B'', failed_at 1)])
           [] 2)
        [(''100|http://en.wikipedia.org/wiki/A'', failed_at 0)])
     = Inr (Holds [(''100|http://en.wikipedia.org/wiki/A'', failed_at 0),
                   (''100|http://en.wikipedia.org/wiki/B'', failed_at 1)],
            [(''100_en.txt'', ''A'')], [''success'', ''failed'']) \<and>
   map_sum id progress_file
     (retry_main echo_env
        (Holds [(''100|http://en.wikipedia.org/wiki/A'', failed_at 0),
                (''100|http://en.wikipedia.org/wiki/B'', failed_at 1)])
        [] 2)
     = Inr (Holds [(''100|http://en.wikipedia.org/wiki/A'', success_at ''100_en.txt'' 2),
                   (''100|http://en.wikipedia.org/wiki/B'', success_at ''100_en_2.txt'' 3)]) \<and>
   progress_file
     (process_url echo_env ''100''
        (start_state Absent [] 2) ''http://en.wikipedia.org/wiki/A'')
     = Holds [(''100|http://en.wikipedia.org/wiki/A'', success_at ''100_en.txt'' 2)]"
  by code_simp

text \<open>
  C3 fails on the code: the primary pipeline starts every run with empty counters and never
  looks at the output directory. Restarted on a checkpoint that records the first URL of a
  book as saved in \<open>100_en.txt\<close>, with that file in the output directory, it skips the first
  URL and allocates \<open>100_en.txt\<close> again for the second: the article of the first URL is
  overwritten, and both checkpoint entries name the same file. The retry pipeline, which
  scans the directory, allocates \<open>100_en_2.txt\<close> in the same situation.
\<close>

theorem primary_restart_overwrites:
  "(\<lambda>s. (articles s, written s, map (\<lambda>kv. filename (snd kv)) (progress s)))
     (primary_main echo_env
        [''100,http://en.wikipedia.org/wiki/A http://en.wikipedia.org/wiki/B'']
        (Holds [(''100|http://en.wikipedia.org/wiki/A'', success_at ''100_en.txt'' 0)])
        [(''100_en.txt'', ''A'')] 1)
     = ([(''100_en.txt'', ''B'')], [''100_en.txt''],
        [Some ''100_en.txt'', Some ''100_en.txt'']) \<and>
   map_sum id (\<lambda>s. (articles s, written s))
     (retry_main echo_env
        (Holds [(''100|http://en.wikipedia.org/wiki/A'', success_at ''100_en.txt'' 0),
                (''100|http://en.wikipedia.org/wiki/B'', failed_at 1)])
        [(''100_en.txt'', ''A'')] 2)
     = Inr ([(''100_en.txt'', ''A''), (''100_en_2.txt'', ''B'')], [''100_en_2.txt''])"
  by code_simp

section \<open>Properties of the filename allocator\<close>











end
